theory Spec2Isabelle
  imports Complex_Main "HOL-Library.Sublist"
begin

section \<open>Weather widget: embedding of weatherTask.ts\<close>

text \<open>
  The development follows \<^verbatim>\<open>src/Weather-app/weatherTask.ts\<close>. Pure helpers become HOL
  functions; the module-level variables and the part of the DOM the script toggles become a
  record that every handler takes and returns; the asynchronous function
  \<^verbatim>\<open>fetchTodayWeather\<close> becomes a small-step machine with one step per stretch of code
  between two \<^verbatim>\<open>await\<close>s, so that the tasks of several calls can be interleaved.
\<close>

subsection \<open>Numbers in template strings\<close>

text \<open>
  \<^verbatim>\<open>`${hour} AM`\<close> prints an integer in decimal, with a minus sign when negative.
\<close>

definition digit_char :: "nat \<Rightarrow> char" where
  "digit_char d = ''0123456789'' ! d"

fun show_nat :: "nat \<Rightarrow> string" where
  "show_nat n = (if n < 10 then [digit_char n] else show_nat (n div 10) @ [digit_char (n mod 10)])"

definition show_int :: "int \<Rightarrow> string" where
  "show_int i = (if i < 0 then CHR ''-'' # show_nat (nat (- i)) else show_nat (nat i))"

subsection \<open>Display hour (lines 332--336 and 412--416)\<close>

text \<open>
  The same conditional expression is written out twice, once in
  \<^verbatim>\<open>updateHourlyForecast\<close> and once in \<^verbatim>\<open>renderHourly\<close>; \<open>hour\<close> is the value of
  \<^verbatim>\<open>getHours()\<close>.
\<close>

definition updateHourlyForecast_displayHour :: "int \<Rightarrow> string" where
  "updateHourlyForecast_displayHour hour =
     (if hour = 0 then ''12 AM''
      else if hour < 12 then show_int hour @ '' AM''
      else if hour = 12 then ''12 PM''
      else show_int (hour - 12) @ '' PM'')"

definition renderHourly_displayHour :: "int \<Rightarrow> string" where
  "renderHourly_displayHour hour =
     (if hour = 0 then ''12 AM''
      else if hour < 12 then show_int hour @ '' AM''
      else if hour = 12 then ''12 PM''
      else show_int (hour - 12) @ '' PM'')"

text \<open>The labels of a whole day, written out, to compare the code against.\<close>

definition hour_labels :: "string list" where
  "hour_labels =
     [''12 AM'', ''1 AM'', ''2 AM'', ''3 AM'', ''4 AM'', ''5 AM'', ''6 AM'', ''7 AM'',
      ''8 AM'', ''9 AM'', ''10 AM'', ''11 AM'', ''12 PM'', ''1 PM'', ''2 PM'', ''3 PM'',
      ''4 PM'', ''5 PM'', ''6 PM'', ''7 PM'', ''8 PM'', ''9 PM'', ''10 PM'', ''11 PM'']"

subsection \<open>Units (lines 41--51, 212--235)\<close>

datatype temperature_unit = celsius | fahrenheit
datatype wind_unit = kmh | mph
datatype precipitation_unit = mm | inch

record Units =
  temperature :: temperature_unit
  wind :: wind_unit
  precipitation :: precipitation_unit

record SystemType =
  temperature_unit :: temperature_unit
  wind_speed_unit :: wind_unit
  precipitation_unit :: precipitation_unit

text \<open>
  \<^verbatim>\<open>localStorage.getItem("unitPreferences")\<close> is \<open>None\<close> when nothing was stored (the
  code then parses \<^verbatim>\<open>"{}"\<close>), and otherwise the stored object, a map from section title to
  \<^verbatim>\<open>"metric"\<close> or \<^verbatim>\<open>"imperial"\<close>.
\<close>

type_synonym preferences = "string \<rightharpoonup> string"

definition stored_preferences :: "preferences option \<Rightarrow> preferences" where
  "stored_preferences item = (case item of None \<Rightarrow> Map.empty | Some prefs \<Rightarrow> prefs)"

text \<open>
  \<^verbatim>\<open>getUnitParams\<close> overwrites the module variable \<^verbatim>\<open>currentUnits\<close> and returns the
  three query parameters; the model returns both.
\<close>

definition getUnitParams :: "preferences option \<Rightarrow> Units \<Rightarrow> SystemType \<times> Units" where
  "getUnitParams item currentUnits =
     (let prefs = stored_preferences item;
          u1 = currentUnits\<lparr>temperature :=
                 (if prefs ''Temperature'' = Some ''imperial'' then fahrenheit else celsius)\<rparr>;
          u2 = u1\<lparr>wind := (if prefs ''Wind Speed'' = Some ''imperial'' then mph else kmh)\<rparr>;
          u3 = u2\<lparr>precipitation :=
                 (if prefs ''Precipitation'' = Some ''imperial'' then inch else mm)\<rparr>
      in (\<lparr>temperature_unit = temperature u3,
           wind_speed_unit = wind u3,
           precipitation_unit = precipitation u3\<rparr>, u3))"

subsection \<open>The part of the page the script reads and writes\<close>

text \<open>
  A class \<^verbatim>\<open>display-none\<close> on an element is a flag \<open>_hidden\<close>. The three entries of
  \<^verbatim>\<open>DATA_SECTIONS\<close> obtained with \<^verbatim>\<open>document.querySelector\<close> may be \<^verbatim>\<open>null\<close>; they are
  \<open>None\<close> then and the loops skip them. \<open>todayEls_present\<close> says whether the four elements
  looked up at lines 590--593 exist.
\<close>

record dom =
  errorFetchCon_hidden :: bool
  mainContent_hidden :: bool
  searchCon_hidden :: bool
  noResult_hidden :: bool
  loadingCon_hidden :: bool
  searchLoading_hidden :: bool
  searchBtn_disabled :: bool
  todaySection_hidden :: bool
  todaySection_bgShow :: bool
  mainContToday_hidden :: bool
  infoCardsCon_hidden :: "bool option"
  forecast_hidden :: "bool option"
  hourForecast_hidden :: "bool option"
  weatherIcon_hidden :: bool
  todayCard_bgShow :: "bool option"
  switchBtn_text :: string
  switchBtn_state :: string
  todayEls_present :: bool

definition showSearchLoading :: "dom \<Rightarrow> dom" where
  "showSearchLoading d = d\<lparr>searchLoading_hidden := False, searchBtn_disabled := True\<rparr>"

definition hideSearchLoading :: "dom \<Rightarrow> dom" where
  "hideSearchLoading d = d\<lparr>searchLoading_hidden := True, searchBtn_disabled := False\<rparr>"

definition hideAllData :: "dom \<Rightarrow> dom" where
  "hideAllData d =
     d\<lparr>todaySection_hidden := True,
       mainContToday_hidden := True,
       infoCardsCon_hidden := map_option (\<lambda>_. True) (infoCardsCon_hidden d),
       forecast_hidden := map_option (\<lambda>_. True) (forecast_hidden d),
       hourForecast_hidden := map_option (\<lambda>_. True) (hourForecast_hidden d),
       weatherIcon_hidden := True\<rparr>"

definition showAllData :: "dom \<Rightarrow> dom" where
  "showAllData d =
     d\<lparr>todaySection_hidden := False,
       mainContToday_hidden := False,
       infoCardsCon_hidden := map_option (\<lambda>_. False) (infoCardsCon_hidden d),
       forecast_hidden := map_option (\<lambda>_. False) (forecast_hidden d),
       hourForecast_hidden := map_option (\<lambda>_. False) (hourForecast_hidden d),
       weatherIcon_hidden := False\<rparr>"

definition showError :: "dom \<Rightarrow> dom" where
  "showError d = (hideAllData d)\<lparr>loadingCon_hidden := True, errorFetchCon_hidden := False\<rparr>"

definition showSuccess :: "dom \<Rightarrow> dom" where
  "showSuccess d = showAllData (d\<lparr>loadingCon_hidden := True, errorFetchCon_hidden := True\<rparr>)"

definition showLoading :: "dom \<Rightarrow> dom" where
  "showLoading d =
     d\<lparr>loadingCon_hidden := False,
       todaySection_bgShow := False,
       mainContToday_hidden := True,
       weatherIcon_hidden := True\<rparr>"

subsection \<open>System state and the switch button (lines 437--476)\<close>

datatype SystemState = metric | imperial | mixed

text \<open>
  A \<^verbatim>\<open>.section\<close> of the units menu, as \<^verbatim>\<open>getCurrentSystem\<close> sees it: the class list of its
  \<^verbatim>\<open>.option.selected\<close> element, or \<open>None\<close> when no option is selected.
\<close>

record section_el =
  selected :: "string list option"

text \<open>One round of the \<^verbatim>\<open>forEach\<close> body, on the two flags.\<close>

definition section_flags :: "section_el \<Rightarrow> bool \<times> bool \<Rightarrow> bool \<times> bool" where
  "section_flags sec flags =
     (case flags of (allMetric, allImperial) \<Rightarrow>
        (case selected sec of
           None \<Rightarrow> (allMetric, allImperial)
         | Some classes \<Rightarrow>
             (if ''metric'' \<notin> set classes then False else allMetric,
              if ''imperial'' \<notin> set classes then False else allImperial)))"

definition getCurrentSystem :: "section_el list \<Rightarrow> SystemState" where
  "getCurrentSystem sections =
     (case fold section_flags sections (True, True) of (allMetric, allImperial) \<Rightarrow>
        if allMetric then metric else if allImperial then imperial else mixed)"

definition updateSwitchButton :: "section_el list \<Rightarrow> dom \<Rightarrow> dom" where
  "updateSwitchButton sections d =
     (let state = getCurrentSystem sections;
          d1 = (if state = metric
                then d\<lparr>switchBtn_text := ''Switch to Imperial'', switchBtn_state := ''metric''\<rparr>
                else if state = imperial
                then d\<lparr>switchBtn_text := ''Switch to Metric'', switchBtn_state := ''imperial''\<rparr>
                else d\<lparr>switchBtn_text := ''Custom units'', switchBtn_state := ''mixed''\<rparr>)
      in hideSearchLoading d1)"

text \<open>
  What a section stands for when exactly one option is selected and it carries exactly one
  of the two classes.
\<close>

definition selects_metric :: "section_el \<Rightarrow> bool" where
  "selects_metric sec =
     (case selected sec of None \<Rightarrow> False
      | Some classes \<Rightarrow> ''metric'' \<in> set classes \<and> ''imperial'' \<notin> set classes)"

definition selects_imperial :: "section_el \<Rightarrow> bool" where
  "selects_imperial sec =
     (case selected sec of None \<Rightarrow> False
      | Some classes \<Rightarrow> ''imperial'' \<in> set classes \<and> ''metric'' \<notin> set classes)"

definition axis_chosen :: "section_el \<Rightarrow> bool" where
  "axis_chosen sec = (selects_metric sec \<or> selects_imperial sec)"

definition imperial_count :: "section_el list \<Rightarrow> nat" where
  "imperial_count sections = length (filter selects_imperial sections)"

subsection \<open>Forecast data (lines 57--78, 120--125, 237--241)\<close>

text \<open>
  A JavaScript \<^verbatim>\<open>number\<close> is a \<open>real\<close> here; no property below computes with one.
  The fields carry the name of the section they belong to, since the interfaces share
  field names.
\<close>

record current_weather =
  current_temperature :: real
  current_windspeed :: real
  current_weathercode :: real
  current_time :: string

record hourly =
  hourly_time :: "string list"
  hourly_temperature_2m :: "real list"
  hourly_weathercode :: "real list"
  hourly_apparent_temperature :: "real list"
  hourly_relative_humidity_2m :: "real list"
  hourly_precipitation :: "real list"

record daily =
  daily_time :: "string list"
  daily_temperature_2m_min :: "real list"
  daily_temperature_2m_max :: "real list"
  daily_weathercode :: "real list"

record WeatherResponse =
  response_current_weather :: current_weather
  response_hourly :: hourly
  response_daily :: daily

record Coordinates =
  latitude :: real
  longitude :: real
  name :: string
  country :: string

text \<open>
  An element of \<^verbatim>\<open>HourlyData[]\<close>. Reading an array past its end gives
  \<^verbatim>\<open>undefined\<close> in JavaScript, which is \<open>None\<close>.
\<close>

record HourlyData =
  hour_time :: string
  hour_temperature :: "real option"
  hour_weathercode :: "real option"

definition index_or_undefined :: "'a list \<Rightarrow> nat \<Rightarrow> 'a option" where
  "index_or_undefined xs i = (if i < length xs then Some (xs ! i) else None)"

subsection \<open>Dates\<close>

text \<open>
  \<^verbatim>\<open>Date\<close> belongs to the JavaScript engine, not to the script, and how it reads a
  string is the engine's business. The functions that build dates therefore take the
  constructor as a parameter \<open>Date\<close>: \<open>Date s\<close> is the time value of \<^verbatim>\<open>new Date(s)\<close>,
  the milliseconds since the epoch, and \<open>None\<close> when the result is an Invalid Date, whose
  time value is \<^verbatim>\<open>NaN\<close>.
\<close>

type_synonym date_constructor = "string \<Rightarrow> int option"

text \<open>
  \<^verbatim>\<open>a >= b\<close> and \<^verbatim>\<open>a <= b\<close> on two dates compare the time values; with a
  \<^verbatim>\<open>NaN\<close> on either side both are false.
\<close>

definition date_ge :: "int option \<Rightarrow> int option \<Rightarrow> bool" where
  "date_ge a b = (case a of None \<Rightarrow> False | Some x \<Rightarrow> (case b of None \<Rightarrow> False | Some y \<Rightarrow> y \<le> x))"

definition date_le :: "int option \<Rightarrow> int option \<Rightarrow> bool" where
  "date_le a b = (case a of None \<Rightarrow> False | Some x \<Rightarrow> (case b of None \<Rightarrow> False | Some y \<Rightarrow> x \<le> y))"

subsection \<open>Hours of one day (lines 378--392)\<close>

text \<open>The \<^verbatim>\<open>map\<close> of \<^verbatim>\<open>getHourlyForDay\<close>: one sample per entry of \<^verbatim>\<open>hourly.time\<close>.\<close>

definition hourly_samples :: "hourly \<Rightarrow> HourlyData list" where
  "hourly_samples h =
     map (\<lambda>(i, t). \<lparr>hour_time = t,
                     hour_temperature = index_or_undefined (hourly_temperature_2m h) i,
                     hour_weathercode = index_or_undefined (hourly_weathercode h) i\<rparr>)
         (enumerate 0 (hourly_time h))"

text \<open>The predicate of the \<^verbatim>\<open>filter\<close>.\<close>

definition within_day :: "date_constructor \<Rightarrow> string \<Rightarrow> HourlyData \<Rightarrow> bool" where
  "within_day Date dateStr h =
     (let start = Date (dateStr @ ''T00:00'');
          end_date = Date (dateStr @ ''T23:59'');
          t = Date (hour_time h)
      in date_ge t start \<and> date_le t end_date)"

definition getHourlyForDay :: "date_constructor \<Rightarrow> hourly \<Rightarrow> string \<Rightarrow> HourlyData list" where
  "getHourlyForDay Date h dateStr = filter (within_day Date dateStr) (hourly_samples h)"



subsection \<open>Module state (lines 47--55) and what the page was asked to show\<close>

text \<open>
  The rendering functions write text and images into the page. The model records each
  call with the data it was given, in order, instead of the resulting markup:
  \<^verbatim>\<open>updateInfoCards\<close>, \<^verbatim>\<open>updateDailyForecast\<close>, \<^verbatim>\<open>populateDaysDropdown\<close>,
  \<^verbatim>\<open>renderHourly\<close>, and the block of lines 599--617 that fills the panel for today.
\<close>

datatype render_call =
    UpdateInfoCards current_weather hourly
  | UpdateDailyForecast daily
  | PopulateDaysDropdown "string list"
  | RenderHourly "HourlyData list"
  | TodayPanel string string current_weather

text \<open>The two requests the script sends, with the parameters that vary.\<close>

datatype net_request =
    GeocodingRequest string
  | ForecastRequest real real SystemType

record app =
  lastCity :: string
  lastWeatherData :: "WeatherResponse option"
  latestRequestId :: nat
  currentUnits :: Units
  unitPreferences :: "preferences option"
  page :: dom
  rendered :: "render_call list"
  requests :: "net_request list"

subsection \<open>Suspended calls of \<^verbatim>\<open>fetchTodayWeather\<close>\<close>

text \<open>
  A call of the asynchronous function runs until its first \<^verbatim>\<open>await\<close> and then gives
  control back; it goes on when the awaited promise settles. A suspended call is the
  \<^verbatim>\<open>await\<close> it stands at together with the local variables still needed; its
  \<^verbatim>\<open>requestId\<close> is the key under which it is kept.
\<close>

datatype continuation =
    AwaitGetCoordinates
  | AwaitNoResultWait
  | AwaitFetch Coordinates
  | AwaitJson Coordinates
  | AwaitRenderWait Coordinates WeatherResponse
  | AwaitErrorWait

text \<open>
  How an awaited promise settles. \<open>Rejected\<close>: the awaited call threw
  (\<^verbatim>\<open>getCoordinates\<close> on a failed request or a bad status, \<^verbatim>\<open>fetch\<close> on a network
  error, \<^verbatim>\<open>json()\<close> on a body that does not parse). \<open>Located\<close>: the value of
  \<^verbatim>\<open>getCoordinates\<close>, \<open>None\<close> for \<^verbatim>\<open>null\<close>. \<open>Responded ok\<close>: the response of
  \<^verbatim>\<open>fetch\<close> with its \<^verbatim>\<open>ok\<close> flag. \<open>Parsed\<close>: the value of \<^verbatim>\<open>res.json()\<close>, \<open>None\<close>
  when \<^verbatim>\<open>current_weather\<close> or \<^verbatim>\<open>hourly\<close> is missing from it. \<open>Elapsed\<close>: the timer of
  \<^verbatim>\<open>wait\<close> fired.
\<close>

datatype resolution =
    Rejected
  | Located "Coordinates option"
  | Responded bool
  | Parsed "WeatherResponse option"
  | Elapsed

record runtime =
  globals :: app
  pending :: "nat \<rightharpoonup> continuation"

definition finish :: "nat \<Rightarrow> runtime \<Rightarrow> runtime" where
  "finish requestId rt = rt\<lparr>pending := (pending rt)(requestId := None)\<rparr>"

definition suspend :: "nat \<Rightarrow> continuation \<Rightarrow> runtime \<Rightarrow> runtime" where
  "suspend requestId k rt = rt\<lparr>pending := (pending rt)(requestId \<mapsto> k)\<rparr>"

text \<open>A throw inside the \<^verbatim>\<open>try\<close> block enters the \<^verbatim>\<open>catch\<close>, which first waits (line 632).\<close>

definition catch_error :: "nat \<Rightarrow> runtime \<Rightarrow> runtime" where
  "catch_error requestId rt = suspend requestId AwaitErrorWait rt"

definition on_page :: "(dom \<Rightarrow> dom) \<Rightarrow> runtime \<Rightarrow> runtime" where
  "on_page f rt = rt\<lparr>globals := (globals rt)\<lparr>page := f (page (globals rt))\<rparr>\<rparr>"

definition render :: "render_call \<Rightarrow> runtime \<Rightarrow> runtime" where
  "render c rt = rt\<lparr>globals := (globals rt)\<lparr>rendered := rendered (globals rt) @ [c]\<rparr>\<rparr>"

definition send :: "net_request \<Rightarrow> runtime \<Rightarrow> runtime" where
  "send r rt = rt\<lparr>globals := (globals rt)\<lparr>requests := requests (globals rt) @ [r]\<rparr>\<rparr>"

definition is_stale :: "nat \<Rightarrow> runtime \<Rightarrow> bool" where
  "is_stale requestId rt = (requestId \<noteq> latestRequestId (globals rt))"

subsection \<open>\<^verbatim>\<open>fetchTodayWeather\<close> (lines 526--639)\<close>

text \<open>
  \<^verbatim>\<open>setHourlyToToday\<close> (lines 168--183) reads the hours from the module variable
  \<^verbatim>\<open>lastWeatherData\<close>, not from its argument. The result is \<open>None\<close> when the read of
  \<^verbatim>\<open>lastWeatherData!.hourly\<close> throws because the variable is \<^verbatim>\<open>null\<close>.
\<close>

definition setHourlyToToday ::
  "date_constructor \<Rightarrow> string list \<Rightarrow> runtime \<Rightarrow> runtime option" where
  "setHourlyToToday Date dailyTimes rt =
     (case dailyTimes of
        [] \<Rightarrow> Some rt
      | todayDate # _ \<Rightarrow>
          (case lastWeatherData (globals rt) of
             None \<Rightarrow> None
           | Some w \<Rightarrow> Some (render (RenderHourly (getHourlyForDay Date (response_hourly w) todayDate)) rt)))"

text \<open>
  Lines 527--540: the part of a call that runs before its first \<^verbatim>\<open>await\<close>. The
  defaults of the two parameters (\<^verbatim>\<open>lastCity\<close> and \<^verbatim>\<open>true\<close>) are filled in by the
  caller.
\<close>

definition fetchTodayWeather :: "string \<Rightarrow> bool \<Rightarrow> runtime \<Rightarrow> runtime" where
  "fetchTodayWeather city showLoader rt =
     (let g = globals rt;
          g1 = g\<lparr>lastCity := city, latestRequestId := latestRequestId g + 1\<rparr>;
          requestId = latestRequestId g1;
          rt1 = on_page (\<lambda>d. d\<lparr>errorFetchCon_hidden := True,
                                mainContent_hidden := False,
                                searchCon_hidden := False,
                                noResult_hidden := True\<rparr>) (rt\<lparr>globals := g1\<rparr>);
          rt2 = (if showLoader then on_page showLoading rt1 else rt1)
      in suspend requestId AwaitGetCoordinates (send (GeocodingRequest city) rt2))"

text \<open>Lines 556--570: the units are resolved and the forecast request is sent.\<close>

definition request_forecast :: "nat \<Rightarrow> Coordinates \<Rightarrow> runtime \<Rightarrow> runtime" where
  "request_forecast requestId location rt =
     (case getUnitParams (unitPreferences (globals rt)) (currentUnits (globals rt)) of
        (units, cu) \<Rightarrow>
          suspend requestId (AwaitFetch location)
            (send (ForecastRequest (latitude location) (longitude location) units)
               (rt\<lparr>globals := (globals rt)\<lparr>currentUnits := cu\<rparr>\<rparr>)))"

text \<open>Lines 546--553: the outcome for a city that was not found.\<close>

definition show_no_result :: "nat \<Rightarrow> runtime \<Rightarrow> runtime" where
  "show_no_result requestId rt =
     finish requestId
       (on_page (\<lambda>d. (hideAllData (hideSearchLoading d))
                        \<lparr>mainContent_hidden := True,
                         errorFetchCon_hidden := True,
                         noResult_hidden := False\<rparr>) rt)"

text \<open>Lines 583--629: the rendering of a forecast.\<close>

definition render_forecast ::
  "date_constructor \<Rightarrow> nat \<Rightarrow> Coordinates \<Rightarrow> WeatherResponse \<Rightarrow> runtime \<Rightarrow> runtime" where
  "render_forecast Date requestId location data rt =
     (let rt1 = render (UpdateInfoCards (response_current_weather data) (response_hourly data)) rt;
          rt2 = render (UpdateDailyForecast (response_daily data)) rt1;
          rt3 = render (PopulateDaysDropdown (daily_time (response_daily data))) rt2
      in case setHourlyToToday Date (daily_time (response_daily data)) rt3 of
           None \<Rightarrow> catch_error requestId rt3
         | Some rt4 \<Rightarrow>
             if \<not> todayEls_present (page (globals rt4)) then catch_error requestId rt4
             else
               finish requestId
                 (on_page (\<lambda>d. showSuccess (hideSearchLoading
                                  (d\<lparr>todayCard_bgShow := map_option (\<lambda>_. True) (todayCard_bgShow d),
                                     loadingCon_hidden := True,
                                     todaySection_bgShow := True,
                                     weatherIcon_hidden := False,
                                     mainContToday_hidden := False,
                                     errorFetchCon_hidden := True\<rparr>)))
                    (render (TodayPanel (name location) (country location)
                               (response_current_weather data)) rt4)))"

text \<open>
  Lines 635--637: the generic error outcome. The message written with
  \<^verbatim>\<open>console.error\<close> is not part of the state.
\<close>

definition show_error_panel :: "nat \<Rightarrow> runtime \<Rightarrow> runtime" where
  "show_error_panel requestId rt =
     finish requestId (on_page (\<lambda>d. showError (hideSearchLoading d)) rt)"

text \<open>
  One stretch of the body, from the \<^verbatim>\<open>await\<close> the call stands at to the next one or to a
  \<^verbatim>\<open>return\<close>. A promise that cannot settle in the given way leaves everything as it is.
  \<open>Date\<close> is the date constructor of the engine the script runs on; only the rendering
  of the hours uses it.
\<close>

fun resume ::
  "date_constructor \<Rightarrow> nat \<Rightarrow> continuation \<Rightarrow> resolution \<Rightarrow> runtime \<Rightarrow> runtime" where
  "resume Date requestId AwaitGetCoordinates (Located location) rt =
     (if is_stale requestId rt then finish requestId rt
      else case location of
             None \<Rightarrow> suspend requestId AwaitNoResultWait rt
           | Some loc \<Rightarrow> request_forecast requestId loc rt)"
| "resume Date requestId AwaitGetCoordinates Rejected rt = catch_error requestId rt"
| "resume Date requestId AwaitNoResultWait Elapsed rt = show_no_result requestId rt"
| "resume Date requestId (AwaitFetch location) (Responded ok) rt =
     (if \<not> ok then catch_error requestId rt else suspend requestId (AwaitJson location) rt)"
| "resume Date requestId (AwaitFetch location) Rejected rt = catch_error requestId rt"
| "resume Date requestId (AwaitJson location) (Parsed payload) rt =
     (case payload of
        None \<Rightarrow> catch_error requestId rt
      | Some data \<Rightarrow>
          suspend requestId (AwaitRenderWait location data)
            (rt\<lparr>globals := (globals rt)\<lparr>lastWeatherData := Some data\<rparr>\<rparr>))"
| "resume Date requestId (AwaitJson location) Rejected rt = catch_error requestId rt"
| "resume Date requestId (AwaitRenderWait location data) Elapsed rt =
     (if is_stale requestId rt then finish requestId rt
      else render_forecast Date requestId location data rt)"
| "resume Date requestId AwaitErrorWait Elapsed rt =
     (if is_stale requestId rt then finish requestId rt
      else show_error_panel requestId rt)"
| "resume Date requestId k r rt = rt"

subsection \<open>Events\<close>

text \<open>
  What can happen between two stretches of code: a call of \<^verbatim>\<open>fetchTodayWeather\<close> with
  its two arguments (line 495, line 756), a click on the search button with the trimmed
  text of the input (lines 730--737; a disabled button gets no click), a click on the
  retry button (lines 746--751), and the settling of the promise a suspended call waits
  for.
\<close>

datatype event =
    Call string bool
  | SearchClick string
  | RetryClick
  | Settle nat resolution

definition search_click :: "string \<Rightarrow> runtime \<Rightarrow> runtime" where
  "search_click city rt =
     (if searchBtn_disabled (page (globals rt)) \<or> city = [] then rt
      else fetchTodayWeather city True (on_page (\<lambda>d. showLoading (showSearchLoading d)) rt))"

definition retry_click :: "runtime \<Rightarrow> runtime" where
  "retry_click rt =
     fetchTodayWeather (lastCity (globals rt)) True
       (on_page (\<lambda>d. d\<lparr>errorFetchCon_hidden := True,
                        mainContent_hidden := False,
                        searchCon_hidden := False\<rparr>) rt)"

fun fire :: "date_constructor \<Rightarrow> event \<Rightarrow> runtime \<Rightarrow> runtime" where
  "fire Date (Call city showLoader) rt = fetchTodayWeather city showLoader rt"
| "fire Date (SearchClick city) rt = search_click city rt"
| "fire Date RetryClick rt = retry_click rt"
| "fire Date (Settle requestId r) rt =
     (case pending rt requestId of None \<Rightarrow> rt | Some k \<Rightarrow> resume Date requestId k r rt)"

definition run :: "date_constructor \<Rightarrow> event list \<Rightarrow> runtime \<Rightarrow> runtime" where
  "run Date evs rt = fold (fire Date) evs rt"

text \<open>The state when the script has been loaded (lines 47--55), on a given page.\<close>

definition loaded :: "dom \<Rightarrow> preferences option \<Rightarrow> runtime" where
  "loaded d prefs =
     \<lparr>globals = \<lparr>lastCity = ''Amman'',
                 lastWeatherData = None,
                 latestRequestId = 0,
                 currentUnits = \<lparr>temperature = celsius, wind = kmh, precipitation = mm\<rparr>,
                 unitPreferences = prefs,
                 page = d,
                 rendered = [],
                 requests = []\<rparr>,
      pending = Map.empty\<rparr>"

subsection \<open>Day arithmetic of the language standard\<close>

text \<open>
  Time values are composed as the ECMAScript standard prescribes (\<^verbatim>\<open>DayFromYear\<close>,
  \<^verbatim>\<open>MakeDay\<close>, \<^verbatim>\<open>MakeTime\<close>, \<^verbatim>\<open>MakeDate\<close>). Months count from 1 here. A day
  number beyond the end of its month runs over into the next month, as \<^verbatim>\<open>MakeDay\<close>
  does.
\<close>

definition InLeapYear :: "int \<Rightarrow> bool" where
  "InLeapYear y =
     (if y mod 4 \<noteq> 0 then False
      else if y mod 100 \<noteq> 0 then True
      else if y mod 400 \<noteq> 0 then False
      else True)"

definition DayFromYear :: "int \<Rightarrow> int" where
  "DayFromYear y =
     365 * (y - 1970) + (y - 1969) div 4 - (y - 1901) div 100 + (y - 1601) div 400"


text \<open>The days of the year before the first of month \<open>m\<close> (1 to 12).\<close>

definition DaysBeforeMonth :: "int \<Rightarrow> int \<Rightarrow> int" where
  "DaysBeforeMonth y m =
     (if m = 1 then 0
      else if m = 2 then 31
      else (if InLeapYear y then 1 else 0) +
        (if m = 3 then 59 else if m = 4 then 90 else if m = 5 then 120
         else if m = 6 then 151 else if m = 7 then 181 else if m = 8 then 212
         else if m = 9 then 243 else if m = 10 then 273 else if m = 11 then 304
         else 334))"

definition MakeDay :: "int \<Rightarrow> int \<Rightarrow> int \<Rightarrow> int" where
  "MakeDay y m d = DayFromYear y + DaysBeforeMonth y m + (d - 1)"

definition MakeTime :: "int \<Rightarrow> int \<Rightarrow> int \<Rightarrow> int \<Rightarrow> int" where
  "MakeTime h mi sec ms = h * 3600000 + mi * 60000 + sec * 1000 + ms"

definition MakeDate :: "int \<Rightarrow> int \<Rightarrow> int" where
  "MakeDate day time = day * 86400000 + time"

subsection \<open>The strings of the forecast service\<close>

text \<open>
  The forecast service writes a day as \<^verbatim>\<open>YYYY-MM-DD\<close> and an hour as
  \<^verbatim>\<open>YYYY-MM-DDTHH:mm\<close>, with a day that exists in the calendar and an hour from 00 to
  23. The functions below recognise exactly these strings and give their fields; they
  describe inputs and are not part of the script.
\<close>

definition digit_of :: "char \<Rightarrow> int option" where
  "digit_of c = map_of (zip ''0123456789'' [0, 1, 2, 3, 4, 5, 6, 7, 8, 9]) c"

fun digits_value :: "string \<Rightarrow> int option" where
  "digits_value [] = Some 0"
| "digits_value (c # cs) =
     (case digit_of c of
        None \<Rightarrow> None
      | Some d \<Rightarrow>
          (case digits_value cs of
             None \<Rightarrow> None
           | Some v \<Rightarrow> Some (d * 10 ^ length cs + v)))"







subsection \<open>A date constructor for the examples\<close>

text \<open>
  \<open>iso_Date tza\<close> is a date constructor to run the examples with, in a time zone whose
  local time is ahead of UTC by the constant \<open>tza\<close> milliseconds. It reads the strings of
  the ECMAScript date-time string format with a four-digit year and a full date the way
  the engine V8 does:
  \<^item> \<^verbatim>\<open>YYYY-MM-DD\<close> alone is midnight UTC;
  \<^item> \<^verbatim>\<open>YYYY-MM-DDTHH:mm\<close>, optionally followed by \<^verbatim>\<open>:ss\<close> and then by a fraction
    of one to three digits, is local time, or the time at the given offset when it ends
    in \<^verbatim>\<open>Z\<close>, \<^verbatim>\<open>+hh:mm\<close>, \<^verbatim>\<open>-hh:mm\<close>, \<^verbatim>\<open>+hhmm\<close> or \<^verbatim>\<open>-hhmm\<close>; \<^verbatim>\<open>T\<close> and \<^verbatim>\<open>Z\<close>
    may be written in lower case;
  \<^item> the month is 01 to 12 and the day 01 to 31, whatever the month: a day past the end
    of the month runs over (the 30th of February is the 1st or 2nd of March);
  \<^item> the hour is 00 to 23, or 24 with minutes, seconds and fraction all zero, which is
    midnight at the end of the day.
  Every other string is an Invalid Date here. An engine reads more than that (a space in
  place of \<^verbatim>\<open>T\<close>, dates in words, years of six digits), and engines differ on days past
  the end of a month; daylight-saving shifts are left out. The general statements below
  are about an arbitrary date constructor and do not depend on \<open>iso_Date\<close>.
\<close>

definition is_digit :: "char \<Rightarrow> bool" where
  "is_digit c = (case digit_of c of None \<Rightarrow> False | Some d \<Rightarrow> True)"

text \<open>A number is the longest run of digits at the front of the string.\<close>

definition number_token :: "string \<Rightarrow> string \<times> string" where
  "number_token s = (takeWhile is_digit s, dropWhile is_digit s)"

text \<open>A number of exactly \<open>n\<close> digits: its value and what follows it.\<close>

definition fixed_number :: "nat \<Rightarrow> string \<Rightarrow> (int \<times> string) option" where
  "fixed_number n s =
     (case number_token s of (ds, rest) \<Rightarrow>
        if length ds = n
        then (case digits_value ds of None \<Rightarrow> None | Some v \<Rightarrow> Some (v, rest))
        else None)"

definition skip_symbol :: "char \<Rightarrow> string \<Rightarrow> string option" where
  "skip_symbol c s = (case s of [] \<Rightarrow> None | x # xs \<Rightarrow> if x = c then Some xs else None)"

text \<open>The date: its day number and what follows it.\<close>

definition iso_day :: "string \<Rightarrow> (int \<times> string) option" where
  "iso_day s =
     (case fixed_number 4 s of None \<Rightarrow> None | Some (y, r1) \<Rightarrow>
     (case skip_symbol CHR ''-'' r1 of None \<Rightarrow> None | Some r2 \<Rightarrow>
     (case fixed_number 2 r2 of None \<Rightarrow> None | Some (m, r3) \<Rightarrow>
        if m < 1 \<or> 12 < m then None else
     (case skip_symbol CHR ''-'' r3 of None \<Rightarrow> None | Some r4 \<Rightarrow>
     (case fixed_number 2 r4 of None \<Rightarrow> None | Some (d, r5) \<Rightarrow>
        if d < 1 \<or> 31 < d then None else Some (MakeDay y m d, r5))))))"

text \<open>The optional seconds and fraction after the minutes of hour \<open>h\<close>.\<close>

definition iso_seconds :: "int \<Rightarrow> string \<Rightarrow> (int \<times> int \<times> string) option" where
  "iso_seconds h s =
     (case skip_symbol CHR '':'' s of
        None \<Rightarrow> Some (0, 0, s)
      | Some r1 \<Rightarrow>
          (case fixed_number 2 r1 of None \<Rightarrow> None | Some (sec, r2) \<Rightarrow>
             if 59 < sec \<or> (h = 24 \<and> 0 < sec) then None
             else
               (case skip_symbol CHR ''.'' r2 of
                  None \<Rightarrow> Some (sec, 0, r2)
                | Some r3 \<Rightarrow>
                    (case number_token r3 of (ds, r4) \<Rightarrow>
                       if ds = [] \<or> 3 < length ds then None
                       else
                         (case digits_value (take 3 (ds @ ''00'')) of
                            None \<Rightarrow> None
                          | Some ms \<Rightarrow>
                              if h = 24 \<and> 0 < ms then None else Some (sec, ms, r4))))))"

text \<open>
  The end of the string: nothing (local time), or an offset from UTC, in minutes.
\<close>

datatype time_zone = LocalTime | OffsetMinutes int

definition iso_offset :: "int \<Rightarrow> string \<Rightarrow> time_zone option" where
  "iso_offset sign r =
     (case number_token r of (ds, r1) \<Rightarrow>
        if length ds = 4
        then
          (case digits_value ds of None \<Rightarrow> None | Some v \<Rightarrow>
             if r1 = [] \<and> v div 100 \<le> 23 \<and> v mod 100 \<le> 59
             then Some (OffsetMinutes (sign * (v div 100 * 60 + v mod 100)))
             else None)
        else if length ds = 2
        then
          (case digits_value ds of None \<Rightarrow> None | Some ohour \<Rightarrow>
          (case skip_symbol CHR '':'' r1 of None \<Rightarrow> None | Some r2 \<Rightarrow>
          (case fixed_number 2 r2 of None \<Rightarrow> None | Some (omin, r3) \<Rightarrow>
             if r3 = [] \<and> ohour \<le> 23 \<and> omin \<le> 59
             then Some (OffsetMinutes (sign * (ohour * 60 + omin)))
             else None)))
        else None)"

definition iso_zone :: "string \<Rightarrow> time_zone option" where
  "iso_zone s =
     (case s of
        [] \<Rightarrow> Some LocalTime
      | c # r \<Rightarrow>
          if c = CHR ''Z'' \<or> c = CHR ''z''
          then (if r = [] then Some (OffsetMinutes 0) else None)
          else if c = CHR ''+'' then iso_offset 1 r
          else if c = CHR ''-'' then iso_offset (- 1) r
          else None)"

text \<open>The time of day after the \<^verbatim>\<open>T\<close>, added to the day, and moved to UTC.\<close>

definition iso_time :: "int \<Rightarrow> int \<Rightarrow> string \<Rightarrow> int option" where
  "iso_time tza day r =
     (case fixed_number 2 r of None \<Rightarrow> None | Some (h, r1) \<Rightarrow>
        if 24 < h then None else
     (case skip_symbol CHR '':'' r1 of None \<Rightarrow> None | Some r2 \<Rightarrow>
     (case fixed_number 2 r2 of None \<Rightarrow> None | Some (mi, r3) \<Rightarrow>
        if 59 < mi \<or> (h = 24 \<and> 0 < mi) then None else
     (case iso_seconds h r3 of None \<Rightarrow> None | Some (sec, ms, r4) \<Rightarrow>
     (case iso_zone r4 of
        None \<Rightarrow> None
      | Some LocalTime \<Rightarrow> Some (MakeDate day (MakeTime h mi sec ms) - tza)
      | Some (OffsetMinutes z) \<Rightarrow> Some (MakeDate day (MakeTime h mi sec ms) - z * 60000))))))"

definition iso_Date :: "int \<Rightarrow> date_constructor" where
  "iso_Date tza s =
     (case iso_day s of
        None \<Rightarrow> None
      | Some (day, r) \<Rightarrow>
          (case r of
             [] \<Rightarrow> Some (MakeDate day 0)
           | c # r1 \<Rightarrow>
               if c = CHR ''T'' \<or> c = CHR ''t'' then iso_time tza day r1 else None))"

subsection \<open>Concrete data for the examples\<close>

definition example_page :: dom where
  "example_page =
     \<lparr>errorFetchCon_hidden = True,
      mainContent_hidden = False,
      searchCon_hidden = False,
      noResult_hidden = True,
      loadingCon_hidden = True,
      searchLoading_hidden = True,
      searchBtn_disabled = False,
      todaySection_hidden = False,
      todaySection_bgShow = False,
      mainContToday_hidden = False,
      infoCardsCon_hidden = Some False,
      forecast_hidden = Some False,
      hourForecast_hidden = Some False,
      weatherIcon_hidden = False,
      todayCard_bgShow = Some False,
      switchBtn_text = ''Switch to Imperial'',
      switchBtn_state = ''metric'',
      todayEls_present = True\<rparr>"

definition example_hourly :: hourly where
  "example_hourly =
     \<lparr>hourly_time = [''2024-02-28T23:00'', ''2024-02-29T00:00'', ''2024-02-29T23:00'', ''2024-03-01T00:00''],
      hourly_temperature_2m = [4, 5, 6, 7],
      hourly_weathercode = [0, 1, 2, 3],
      hourly_apparent_temperature = [3, 4, 5, 6],
      hourly_relative_humidity_2m = [50, 51, 52, 53],
      hourly_precipitation = [0, 0, 1, 0]\<rparr>"

text \<open>A series that writes the midnight after the 29th of February as hour 24.\<close>

definition midnight_hourly :: hourly where
  "midnight_hourly =
     \<lparr>hourly_time = [''2024-02-29T23:00'', ''2024-02-29T24:00'', ''2024-03-01T01:00''],
      hourly_temperature_2m = [6, 7, 8],
      hourly_weathercode = [2, 3, 3],
      hourly_apparent_temperature = [5, 6, 7],
      hourly_relative_humidity_2m = [52, 53, 54],
      hourly_precipitation = [1, 0, 0]\<rparr>"

definition example_location :: Coordinates where
  "example_location = \<lparr>latitude = 31.95, longitude = 35.93, name = ''Amman'', country = ''Jordan''\<rparr>"

definition other_location :: Coordinates where
  "other_location = \<lparr>latitude = 30.06, longitude = 31.25, name = ''Cairo'', country = ''Egypt''\<rparr>"

definition example_daily :: daily where
  "example_daily =
     \<lparr>daily_time = [''2024-02-29'', ''2024-03-01''],
      daily_temperature_2m_min = [3, 4],
      daily_temperature_2m_max = [9, 10],
      daily_weathercode = [1, 2]\<rparr>"

definition example_forecast :: WeatherResponse where
  "example_forecast =
     \<lparr>response_current_weather =
        \<lparr>current_temperature = 5, current_windspeed = 12, current_weathercode = 1,
         current_time = ''2024-02-29T00:00''\<rparr>,
      response_hourly = example_hourly,
      response_daily = example_daily\<rparr>"

definition other_forecast :: WeatherResponse where
  "other_forecast =
     \<lparr>response_current_weather =
        \<lparr>current_temperature = 21, current_windspeed = 7, current_weathercode = 0,
         current_time = ''2024-02-29T00:00''\<rparr>,
      response_hourly = example_hourly\<lparr>hourly_temperature_2m := [20, 21, 22, 23]\<rparr>,
      response_daily = example_daily\<lparr>daily_temperature_2m_min := [18, 19],
                                      daily_temperature_2m_max := [27, 28]\<rparr>\<rparr>"

text \<open>
  A first call for Amman is located; before its forecast arrives a second call, for
  Cairo, is made and runs up to its two-second wait; then the forecast of the first call
  arrives; then the wait of the second call ends.
\<close>

definition overtaken_forecast :: "event list" where
  "overtaken_forecast =
     [Call ''Amman'' True, Settle 1 (Located (Some example_location)),
      Call ''Cairo'' True, Settle 2 (Located (Some other_location)),
      Settle 2 (Responded True), Settle 2 (Parsed (Some other_forecast)),
      Settle 1 (Responded True), Settle 1 (Parsed (Some example_forecast)),
      Settle 2 Elapsed]"

text \<open>
  A first call is located and gets its response; a second call is made while the body of
  that response is still being read.
\<close>

definition superseded_while_reading :: "event list" where
  "superseded_while_reading =
     [Call ''Amman'' True, Settle 1 (Located (Some example_location)),
      Call ''Cairo'' True, Settle 1 (Responded True)]"

text \<open>
  A call for a city that the geocoding service does not know; a second call is made
  during the two-second wait of the first.
\<close>

definition superseded_while_not_found :: "event list" where
  "superseded_while_not_found =
     [Call ''Atlantis'' True, Settle 1 (Located None), Call ''Cairo'' True]"

text \<open>The same, with a geocoding request that fails instead.\<close>

definition superseded_while_failed :: "event list" where
  "superseded_while_failed =
     [Call ''Atlantis'' True, Settle 1 Rejected, Call ''Cairo'' True]"

text \<open>
  The page has been loaded, which calls \<^verbatim>\<open>fetchTodayWeather("Amman")\<close> (line 756); the
  user then searches for Cairo before the first geocoding request has returned.
\<close>

definition search_during_first_load :: "event list" where
  "search_during_first_load = [Call ''Amman'' True, SearchClick ''Cairo'']"

text \<open>
  The three places where the body compares \<^verbatim>\<open>requestId\<close> with
  \<^verbatim>\<open>latestRequestId\<close> (lines 541, 581, 633), as the \<^verbatim>\<open>await\<close> before the comparison
  and the way it settles.
\<close>

fun staleness_checkpoint :: "continuation \<Rightarrow> resolution \<Rightarrow> bool" where
  "staleness_checkpoint AwaitGetCoordinates (Located location) = True"
| "staleness_checkpoint (AwaitRenderWait location data) Elapsed = True"
| "staleness_checkpoint AwaitErrorWait Elapsed = True"
| "staleness_checkpoint k r = False"

fun is_settle :: "event \<Rightarrow> bool" where
  "is_settle (Settle requestId r) = True"
| "is_settle e = False"

text \<open>Events of one kind, and the settlings that belong to one call.\<close>

fun settles_for :: "nat \<Rightarrow> event \<Rightarrow> bool" where
  "settles_for n (Settle requestId r) = (requestId = n)"
| "settles_for n e = False"

fun is_call :: "event \<Rightarrow> bool" where
  "is_call (Call city showLoader) = True"
| "is_call e = False"

text \<open>A complete call for Amman that ends with the forecast on the page.\<close>

definition amman_shown :: "event list" where
  "amman_shown =
     [Call ''Amman'' True, Settle 1 (Located (Some example_location)),
      Settle 1 (Responded True), Settle 1 (Parsed (Some example_forecast)), Settle 1 Elapsed]"

section \<open>Properties\<close>

subsection \<open>Display hour\<close>

lemma hour_cases:
  "0 \<le> (h::int) \<Longrightarrow> h \<le> 23 \<Longrightarrow>
   h = 0 \<or> h = 1 \<or> h = 2 \<or> h = 3 \<or> h = 4 \<or> h = 5 \<or> h = 6 \<or> h = 7 \<or> h = 8 \<or> h = 9
   \<or> h = 10 \<or> h = 11 \<or> h = 12 \<or> h = 13 \<or> h = 14 \<or> h = 15 \<or> h = 16 \<or> h = 17
   \<or> h = 18 \<or> h = 19 \<or> h = 20 \<or> h = 21 \<or> h = 22 \<or> h = 23"
  by arith

lemma renderHourly_displayHour_label:
  assumes "0 \<le> h" "h \<le> 23"
  shows "renderHourly_displayHour h = hour_labels ! nat h"
  using hour_cases [OF assms]
  by (elim disjE)
     (simp_all add: renderHourly_displayHour_def show_int_def digit_char_def hour_labels_def)

lemma displayHour_same:
  "updateHourlyForecast_displayHour h = renderHourly_displayHour h"
  by (simp add: renderHourly_displayHour_def updateHourlyForecast_displayHour_def)

text \<open>
  C5. For every hour \<open>h\<close> from 0 to 23 the expression of \<^verbatim>\<open>renderHourly\<close> and the one of
  \<^verbatim>\<open>updateHourlyForecast\<close> both give the label of the written-out table: 0 gives
  \<open>12 AM\<close>, 1 to 11 give the hour followed by \<open>AM\<close>, 12 gives \<open>12 PM\<close>, 13 to 23 give
  the hour minus twelve followed by \<open>PM\<close>; at the boundaries 0, 11, 12 and 23 the labels
  are \<open>12 AM\<close>, \<open>11 AM\<close>, \<open>12 PM\<close> and \<open>11 PM\<close>. The function is a HOL function of the
  hour alone, so it is total and has no effect.
\<close>

theorem displayHour_spec:
  assumes "0 \<le> h" "h \<le> 23"
  shows "renderHourly_displayHour h = hour_labels ! nat h
       \<and> updateHourlyForecast_displayHour h = hour_labels ! nat h
       \<and> renderHourly_displayHour h =
           (if h = 0 then ''12 AM''
            else if h \<le> 11 then show_int h @ '' AM''
            else if h = 12 then ''12 PM''
            else show_int (h - 12) @ '' PM'')
       \<and> renderHourly_displayHour 0 = ''12 AM''
       \<and> renderHourly_displayHour 11 = ''11 AM''
       \<and> renderHourly_displayHour 12 = ''12 PM''
       \<and> renderHourly_displayHour 23 = ''11 PM''"
proof -
  have a: "renderHourly_displayHour h = hour_labels ! nat h"
    by (rule renderHourly_displayHour_label [OF assms])
  have b: "renderHourly_displayHour h =
           (if h = 0 then ''12 AM''
            else if h \<le> 11 then show_int h @ '' AM''
            else if h = 12 then ''12 PM''
            else show_int (h - 12) @ '' PM'')"
    by (simp add: renderHourly_displayHour_def)
  have c: "renderHourly_displayHour 0 = ''12 AM''" "renderHourly_displayHour 11 = ''11 AM''"
     "renderHourly_displayHour 12 = ''12 PM''" "renderHourly_displayHour 23 = ''11 PM''"
    by (simp_all add: renderHourly_displayHour_def show_int_def digit_char_def)
  show ?thesis using a b c by (simp only: displayHour_same simp_thms)
qed

theorem displayHour_spec_witness:
  "(0::int) \<le> 17 \<and> (17::int) \<le> 23 \<and> renderHourly_displayHour 17 = ''5 PM''
   \<and> updateHourlyForecast_displayHour 17 = ''5 PM''"
  using displayHour_spec [of 17] by (simp add: hour_labels_def)

subsection \<open>Unit resolution\<close>

text \<open>
  C8. \<^verbatim>\<open>getUnitParams\<close> resolves three binary axes from the stored preference map:
  each axis is imperial exactly when its own key holds \<^verbatim>\<open>"imperial"\<close> and metric
  otherwise, so a key that is absent resolves to the metric choice; changing the entry of
  any other key leaves an axis as it was (the axes are independent); with nothing stored
  all three axes are metric, whatever \<^verbatim>\<open>currentUnits\<close> held before; and the module
  variable \<^verbatim>\<open>currentUnits\<close> is left holding the same three choices that are returned.
\<close>

theorem getUnitParams_spec:
  "temperature_unit (fst (getUnitParams item cu)) =
     (if stored_preferences item ''Temperature'' = Some ''imperial'' then fahrenheit else celsius)
   \<and> wind_speed_unit (fst (getUnitParams item cu)) =
     (if stored_preferences item ''Wind Speed'' = Some ''imperial'' then mph else kmh)
   \<and> precipitation_unit (fst (getUnitParams item cu)) =
     (if stored_preferences item ''Precipitation'' = Some ''imperial'' then inch else mm)
   \<and> (stored_preferences item ''Temperature'' = None \<longrightarrow>
        temperature_unit (fst (getUnitParams item cu)) = celsius)
   \<and> (stored_preferences item ''Wind Speed'' = None \<longrightarrow>
        wind_speed_unit (fst (getUnitParams item cu)) = kmh)
   \<and> (stored_preferences item ''Precipitation'' = None \<longrightarrow>
        precipitation_unit (fst (getUnitParams item cu)) = mm)
   \<and> (k \<noteq> ''Temperature'' \<longrightarrow>
        temperature_unit (fst (getUnitParams (Some ((stored_preferences item)(k := v))) cu))
          = temperature_unit (fst (getUnitParams item cu)))
   \<and> (k \<noteq> ''Wind Speed'' \<longrightarrow>
        wind_speed_unit (fst (getUnitParams (Some ((stored_preferences item)(k := v))) cu))
          = wind_speed_unit (fst (getUnitParams item cu)))
   \<and> (k \<noteq> ''Precipitation'' \<longrightarrow>
        precipitation_unit (fst (getUnitParams (Some ((stored_preferences item)(k := v))) cu))
          = precipitation_unit (fst (getUnitParams item cu)))
   \<and> fst (getUnitParams None cu) =
       \<lparr>temperature_unit = celsius, wind_speed_unit = kmh, precipitation_unit = mm\<rparr>
   \<and> snd (getUnitParams item cu) =
       \<lparr>temperature = temperature_unit (fst (getUnitParams item cu)),
        wind = wind_speed_unit (fst (getUnitParams item cu)),
        precipitation = precipitation_unit (fst (getUnitParams item cu))\<rparr>"
  by (simp add: getUnitParams_def stored_preferences_def Let_def)

theorem getUnitParams_spec_witness:
  "stored_preferences (Some [''Wind Speed'' \<mapsto> ''imperial'']) ''Temperature'' = None
   \<and> stored_preferences (Some [''Wind Speed'' \<mapsto> ''imperial'']) ''Precipitation'' = None
   \<and> ''Wind Speed'' \<noteq> ''Temperature''
   \<and> fst (getUnitParams (Some [''Wind Speed'' \<mapsto> ''imperial''])
            \<lparr>temperature = fahrenheit, wind = kmh, precipitation = inch\<rparr>)
       = \<lparr>temperature_unit = celsius, wind_speed_unit = mph, precipitation_unit = mm\<rparr>
   \<and> temperature_unit (fst (getUnitParams (Some [''Wind Speed'' \<mapsto> ''metric''])
            \<lparr>temperature = fahrenheit, wind = kmh, precipitation = inch\<rparr>)) = celsius"
  using getUnitParams_spec [of "Some [''Wind Speed'' \<mapsto> ''imperial'']"
          "\<lparr>temperature = fahrenheit, wind = kmh, precipitation = inch\<rparr>"
          "''Wind Speed''" "Some ''metric''"]
  by (simp add: stored_preferences_def)

subsection \<open>System state and switch button\<close>

lemma fold_section_flags:
  "fold section_flags secs (am, ai) =
     (am \<and> list_all (\<lambda>s. case selected s of None \<Rightarrow> True | Some cl \<Rightarrow> ''metric'' \<in> set cl) secs,
      ai \<and> list_all (\<lambda>s. case selected s of None \<Rightarrow> True | Some cl \<Rightarrow> ''imperial'' \<in> set cl) secs)"
  by (induction secs arbitrary: am ai) (auto simp: section_flags_def split: option.splits)

lemma chosen_flags:
  assumes "axis_chosen s"
  shows "(case selected s of None \<Rightarrow> True | Some cl \<Rightarrow> ''metric'' \<in> set cl) = selects_metric s"
    and "(case selected s of None \<Rightarrow> True | Some cl \<Rightarrow> ''imperial'' \<in> set cl) = selects_imperial s"
    and "selects_metric s = (\<not> selects_imperial s)"
  using assms
  by (auto simp: axis_chosen_def selects_metric_def selects_imperial_def split: option.splits)

lemma list_all_chosen:
  "list_all axis_chosen secs \<Longrightarrow>
   list_all (\<lambda>s. case selected s of None \<Rightarrow> True | Some cl \<Rightarrow> ''metric'' \<in> set cl) secs
     = list_all selects_metric secs
   \<and> list_all (\<lambda>s. case selected s of None \<Rightarrow> True | Some cl \<Rightarrow> ''imperial'' \<in> set cl) secs
     = list_all selects_imperial secs"
  by (induction secs) (simp_all add: chosen_flags)

lemma length_filter_all: "(length (filter P xs) = length xs) = list_all P xs"
proof (induction xs)
  case Nil
  then show ?case by simp
next
  case (Cons a xs)
  have le: "length (filter P xs) \<le> length xs" by (rule length_filter_le)
  show ?case
  proof (cases "P a")
    case True
    with Cons show ?thesis by simp
  next
    case False
    have "length (filter P xs) \<noteq> Suc (length xs)" using le by arith
    with False show ?thesis by simp
  qed
qed

lemma all_metric_count:
  "list_all axis_chosen secs \<Longrightarrow> list_all selects_metric secs = (imperial_count secs = 0)"
  by (induction secs) (auto simp: chosen_flags imperial_count_def)

lemma all_imperial_count:
  "list_all selects_imperial secs = (imperial_count secs = length secs)"
  by (simp add: imperial_count_def length_filter_all)

lemma getCurrentSystem_chosen:
  assumes "list_all axis_chosen secs"
  shows "getCurrentSystem secs =
           (if list_all selects_metric secs then metric
            else if list_all selects_imperial secs then imperial
            else mixed)"
  using list_all_chosen [OF assms] by (simp add: getCurrentSystem_def fold_section_flags)

text \<open>
  C9. With three sections, each with one selected option that carries exactly one of the
  classes \<^verbatim>\<open>metric\<close> and \<^verbatim>\<open>imperial\<close>, the label computed by \<^verbatim>\<open>getCurrentSystem\<close>
  depends on those selections only: it is \<open>metric\<close> exactly when all three select metric,
  \<open>imperial\<close> exactly when all three select imperial, and \<open>mixed\<close> in every other case.
  \<^verbatim>\<open>updateSwitchButton\<close> then writes \<open>Custom units\<close> when one or two sections are
  imperial, \<open>Switch to Metric\<close> when all three are, and \<open>Switch to Imperial\<close> when none is.
\<close>

theorem system_state_spec:
  assumes "list_all axis_chosen secs" and "length secs = 3"
  shows "(getCurrentSystem secs = metric) = list_all selects_metric secs
       \<and> (getCurrentSystem secs = imperial) = list_all selects_imperial secs
       \<and> (getCurrentSystem secs = mixed) =
            (\<not> list_all selects_metric secs \<and> \<not> list_all selects_imperial secs)
       \<and> (imperial_count secs = 1 \<or> imperial_count secs = 2 \<longrightarrow>
            switchBtn_text (updateSwitchButton secs d) = ''Custom units'')
       \<and> (imperial_count secs = 3 \<longrightarrow>
            switchBtn_text (updateSwitchButton secs d) = ''Switch to Metric'')
       \<and> (imperial_count secs = 0 \<longrightarrow>
            switchBtn_text (updateSwitchButton secs d) = ''Switch to Imperial'')"
proof -
  note g = getCurrentSystem_chosen [OF assms(1)]
  note m = all_metric_count [OF assms(1)]
  have ne: "\<not> (list_all selects_metric secs \<and> list_all selects_imperial secs)"
    using assms(2) by (auto simp: m all_imperial_count)
  have s1: "(getCurrentSystem secs = metric) = list_all selects_metric secs"
    using ne by (auto simp: g)
  have s2: "(getCurrentSystem secs = imperial) = list_all selects_imperial secs"
    using ne by (auto simp: g)
  have s3: "(getCurrentSystem secs = mixed) =
            (\<not> list_all selects_metric secs \<and> \<not> list_all selects_imperial secs)"
    by (auto simp: g)
  have t: "switchBtn_text (updateSwitchButton secs d) =
             (if imperial_count secs = 0 then ''Switch to Imperial''
              else if imperial_count secs = 3 then ''Switch to Metric''
              else ''Custom units'')"
    by (simp add: updateSwitchButton_def hideSearchLoading_def Let_def g m all_imperial_count assms(2))
  show ?thesis using s1 s2 s3 by (simp add: t)
qed

theorem system_state_spec_witness:
  "list_all axis_chosen [\<lparr>selected = Some [''option'', ''metric'', ''selected'']\<rparr>,
                         \<lparr>selected = Some [''option'', ''imperial'', ''selected'']\<rparr>,
                         \<lparr>selected = Some [''option'', ''metric'', ''selected'']\<rparr>]
   \<and> getCurrentSystem [\<lparr>selected = Some [''option'', ''metric'', ''selected'']\<rparr>,
                         \<lparr>selected = Some [''option'', ''imperial'', ''selected'']\<rparr>,
                         \<lparr>selected = Some [''option'', ''metric'', ''selected'']\<rparr>] = mixed
   \<and> switchBtn_text (updateSwitchButton
                        [\<lparr>selected = Some [''option'', ''metric'', ''selected'']\<rparr>,
                         \<lparr>selected = Some [''option'', ''imperial'', ''selected'']\<rparr>,
                         \<lparr>selected = Some [''option'', ''metric'', ''selected'']\<rparr>] example_page) = ''Custom units''"
  using system_state_spec [of "[\<lparr>selected = Some [''option'', ''metric'', ''selected'']\<rparr>,
                         \<lparr>selected = Some [''option'', ''imperial'', ''selected'']\<rparr>,
                         \<lparr>selected = Some [''option'', ''metric'', ''selected'']\<rparr>]" example_page]
  by (simp add: axis_chosen_def selects_metric_def selects_imperial_def imperial_count_def)

subsection \<open>Calendar arithmetic\<close>












subsection \<open>The strings of the forecast service\<close>






lemma append_same_length:
  "length xs = length ys \<Longrightarrow> xs @ us = ys @ vs \<Longrightarrow> xs = ys \<and> us = vs"
  by simp








subsection \<open>The date constructor of the examples\<close>






subsection \<open>Hours of one day\<close>

lemmas date_defs = getHourlyForDay_def hourly_samples_def example_hourly_def midnight_hourly_def
  within_day_def iso_Date_def iso_day_def iso_time_def iso_seconds_def iso_zone_def iso_offset_def
  fixed_number_def number_token_def skip_symbol_def is_digit_def digit_of_def
  MakeDate_def MakeDay_def MakeTime_def DayFromYear_def DaysBeforeMonth_def InLeapYear_def
  index_or_undefined_def date_ge_def date_le_def enumerate_eq_zip upt_rec








subsection \<open>Calls of \<^verbatim>\<open>fetchTodayWeather\<close>\<close>

lemmas step_defs = fetchTodayWeather_def on_page_def send_def suspend_def
  finish_def is_stale_def catch_error_def request_forecast_def show_no_result_def
  render_forecast_def show_error_panel_def render_def setHourlyToToday_def search_click_def
  retry_click_def Let_def

lemmas page_defs = showLoading_def showSearchLoading_def hideSearchLoading_def hideAllData_def
  showAllData_def showError_def showSuccess_def

lemmas example_defs = getUnitParams_def stored_preferences_def loaded_def example_page_def example_location_def other_location_def
  example_forecast_def other_forecast_def example_daily_def

lemma run_append: "run Date (xs @ ys) rt = run Date ys (run Date xs rt)"
  by (simp add: run_def)

lemma amman_shown_state:
  "latestRequestId (globals (run (iso_Date 0) amman_shown (loaded example_page None))) = 1"
  "lastWeatherData (globals (run (iso_Date 0) amman_shown (loaded example_page None))) = Some example_forecast"
  "lastCity (globals (run (iso_Date 0) amman_shown (loaded example_page None))) = ''Amman''"
  "requests (globals (run (iso_Date 0) amman_shown (loaded example_page None))) =
     [GeocodingRequest ''Amman'',
      ForecastRequest (latitude example_location) (longitude example_location)
        \<lparr>temperature_unit = celsius, wind_speed_unit = kmh, precipitation_unit = mm\<rparr>]"
  by (simp_all add: run_def amman_shown_def example_defs step_defs page_defs)

subsubsection \<open>The city of the last call\<close>

lemma resume_lastCity:
  "lastCity (globals (resume Date requestId k r rt)) = lastCity (globals rt)"
  by (cases k; cases r)
     (auto simp: step_defs split: option.splits list.splits prod.splits)

lemma settle_lastCity:
  "lastCity (globals (fire Date (Settle requestId r) rt)) = lastCity (globals rt)"
  by (simp add: resume_lastCity split: option.splits)

lemma run_settles_lastCity:
  "list_all is_settle evs \<Longrightarrow> lastCity (globals (run Date evs rt)) = lastCity (globals rt)"
proof (induction evs arbitrary: rt)
  case Nil
  then show ?case by (simp add: run_def)
next
  case (Cons e evs)
  from Cons.prems obtain i r where e: "e = Settle i r" by (cases e) auto
  from Cons.prems have "list_all is_settle evs" by simp
  from Cons.IH [OF this, of "fire Date e rt"] show ?case
    by (simp add: run_def e settle_lastCity del: fire.simps)
qed

lemma call_lastCity:
  "lastCity (globals (fetchTodayWeather city showLoader rt)) = city"
  "requests (globals (fetchTodayWeather city showLoader rt)) = requests (globals rt) @ [GeocodingRequest city]"
  by (simp_all add: step_defs)

text \<open>
  C10. A call of \<^verbatim>\<open>fetchTodayWeather\<close> stores its city argument in \<^verbatim>\<open>lastCity\<close>
  in the stretch that runs before the first \<^verbatim>\<open>await\<close>, for every city and without any
  test; the same stretch sends the geocoding request for that city. No later stretch of any
  call writes \<^verbatim>\<open>lastCity\<close>, so whatever way the promises settle afterwards (not found,
  failure, success), \<^verbatim>\<open>lastCity\<close> is still the city of that call, and a click on the retry
  button sends a geocoding request for it.
\<close>

theorem lastCity_is_latest_call:
  assumes "list_all is_settle evs"
  shows "lastCity (globals (fire Date (Call city showLoader) rt)) = city
       \<and> requests (globals (fire Date (Call city showLoader) rt))
           = requests (globals rt) @ [GeocodingRequest city]
       \<and> lastCity (globals (run Date evs (fire Date (Call city showLoader) rt))) = city
       \<and> requests (globals (fire Date RetryClick (run Date evs (fire Date (Call city showLoader) rt))))
           = requests (globals (run Date evs (fire Date (Call city showLoader) rt))) @ [GeocodingRequest city]"
proof -
  have a: "lastCity (globals (run Date evs (fire Date (Call city showLoader) rt))) = city"
    using run_settles_lastCity [OF assms, of Date "fire Date (Call city showLoader) rt"]
    by (simp add: call_lastCity)
  have b: "requests (globals (fire Date RetryClick rt')) = requests (globals rt') @ [GeocodingRequest (lastCity (globals rt'))]" for rt'
    by (simp add: step_defs)
  show ?thesis by (simp add: call_lastCity a b del: fire.simps) (simp add: call_lastCity)
qed

theorem lastCity_is_latest_call_witness:
  "list_all is_settle [Settle 2 (Located None), Settle 2 Elapsed]
   \<and> lastCity (globals (run (iso_Date 0) amman_shown (loaded example_page None))) = ''Amman''
   \<and> lastCity (globals (run (iso_Date 0) [Settle 2 (Located None), Settle 2 Elapsed]
                           (fire (iso_Date 0) (Call ''Atlantis'' True) (run (iso_Date 0) amman_shown (loaded example_page None)))))
       = ''Atlantis''
   \<and> last (requests (globals (fire (iso_Date 0) RetryClick
         (run (iso_Date 0) [Settle 2 (Located None), Settle 2 Elapsed]
              (fire (iso_Date 0) (Call ''Atlantis'' True) (run (iso_Date 0) amman_shown (loaded example_page None)))))))
       = GeocodingRequest ''Atlantis''"
proof -
  have s: "list_all is_settle [Settle 2 (Located None), Settle 2 Elapsed]" by simp
  have l: "last (xs @ [GeocodingRequest ''Atlantis'']) = GeocodingRequest ''Atlantis''" for xs
    by simp
  from lastCity_is_latest_call [OF s, of "iso_Date 0" "''Atlantis''" True "run (iso_Date 0) amman_shown (loaded example_page None)"]
  have "lastCity (globals (run (iso_Date 0) [Settle 2 (Located None), Settle 2 Elapsed]
                           (fire (iso_Date 0) (Call ''Atlantis'' True) (run (iso_Date 0) amman_shown (loaded example_page None)))))
       = ''Atlantis''"
    and "last (requests (globals (fire (iso_Date 0) RetryClick
         (run (iso_Date 0) [Settle 2 (Located None), Settle 2 Elapsed]
              (fire (iso_Date 0) (Call ''Atlantis'' True) (run (iso_Date 0) amman_shown (loaded example_page None)))))))
       = GeocodingRequest ''Atlantis''"
    by (simp_all only: l)
  with s amman_shown_state(3) show ?thesis by blast
qed

subsubsection \<open>A city that is not found\<close>

lemma call_lastWeatherData:
  "lastWeatherData (globals (fetchTodayWeather city showLoader rt)) = lastWeatherData (globals rt)"
  by (simp add: step_defs)

lemma call_pending:
  "pending (fetchTodayWeather city showLoader rt) (latestRequestId (globals rt) + 1) = Some AwaitGetCoordinates"
  "latestRequestId (globals (fetchTodayWeather city showLoader rt)) = latestRequestId (globals rt) + 1"
  by (simp_all add: step_defs)

text \<open>
  C7. A run of \<^verbatim>\<open>fetchTodayWeather\<close> that ends in the outcome for a city that was not
  found consists of three stretches: the call, the return of \<^verbatim>\<open>getCoordinates\<close> with
  \<^verbatim>\<open>null\<close>, and the end of the two-second wait. Each of them leaves \<^verbatim>\<open>lastWeatherData\<close>
  as it is, in every state; so from any state, when the three run one after the other, the
  snapshot held before the call (or \<^verbatim>\<open>null\<close>) is still held when the panel for no
  results is shown and the call has returned.
\<close>

theorem no_result_keeps_snapshot:
  "lastWeatherData (globals (fire Date (Call city showLoader) rt)) = lastWeatherData (globals rt)
   \<and> lastWeatherData (globals (resume Date requestId AwaitGetCoordinates (Located None) rt))
       = lastWeatherData (globals rt)
   \<and> lastWeatherData (globals (resume Date requestId AwaitNoResultWait Elapsed rt))
       = lastWeatherData (globals rt)
   \<and> pending (run Date [Call city showLoader, Settle (latestRequestId (globals rt) + 1) (Located None)] rt)
        (latestRequestId (globals rt) + 1) = Some AwaitNoResultWait
   \<and> lastWeatherData (globals (run Date [Call city showLoader,
                                      Settle (latestRequestId (globals rt) + 1) (Located None),
                                      Settle (latestRequestId (globals rt) + 1) Elapsed] rt))
       = lastWeatherData (globals rt)
   \<and> \<not> noResult_hidden (page (globals (run Date [Call city showLoader,
                                      Settle (latestRequestId (globals rt) + 1) (Located None),
                                      Settle (latestRequestId (globals rt) + 1) Elapsed] rt)))
   \<and> pending (run Date [Call city showLoader,
                    Settle (latestRequestId (globals rt) + 1) (Located None),
                    Settle (latestRequestId (globals rt) + 1) Elapsed] rt)
        (latestRequestId (globals rt) + 1) = None"
  by (simp add: run_def step_defs page_defs)

theorem no_result_keeps_snapshot_witness:
  "lastWeatherData (globals (run (iso_Date 0) amman_shown (loaded example_page None))) = Some example_forecast
   \<and> lastWeatherData (globals (run (iso_Date 0) [Call ''Atlantis'' True, Settle 2 (Located None), Settle 2 Elapsed]
                                   (run (iso_Date 0) amman_shown (loaded example_page None))))
       = Some example_forecast
   \<and> \<not> noResult_hidden (page (globals
         (run (iso_Date 0) [Call ''Atlantis'' True, Settle 2 (Located None), Settle 2 Elapsed]
              (run (iso_Date 0) amman_shown (loaded example_page None)))))"
  using no_result_keeps_snapshot [of "iso_Date 0" "''Atlantis''" True "run (iso_Date 0) amman_shown (loaded example_page None)" 2,
          unfolded amman_shown_state one_add_one]
        amman_shown_state(2)
  by blast

subsubsection \<open>A superseded call at a staleness check\<close>

text \<open>
  C3, as the claim states it, fails. When the page is loading its first forecast and the
  user searches for another city, the first call is superseded; when its geocoding
  request returns it finds itself stale at line 541 and returns, and both the search
  loader and the loading panel are still shown.
\<close>

theorem stale_return_leaves_loaders_shown:
  "pending (run (iso_Date 0) search_during_first_load (loaded example_page None)) 1 = Some AwaitGetCoordinates
   \<and> is_stale 1 (run (iso_Date 0) search_during_first_load (loaded example_page None))
   \<and> pending (run (iso_Date 0) (search_during_first_load @ [Settle 1 (Located (Some example_location))])
                  (loaded example_page None)) 1 = None
   \<and> \<not> searchLoading_hidden (page (globals
         (run (iso_Date 0) (search_during_first_load @ [Settle 1 (Located (Some example_location))])
              (loaded example_page None))))
   \<and> \<not> loadingCon_hidden (page (globals
         (run (iso_Date 0) (search_during_first_load @ [Settle 1 (Located (Some example_location))])
              (loaded example_page None))))"
  by (simp add: run_def search_during_first_load_def loaded_def step_defs page_defs example_page_def)

text \<open>
  C3, amended. On every return path of \<^verbatim>\<open>fetchTodayWeather\<close> where a staleness check
  fires (lines 541, 581 and 633), the call returns at once and changes nothing: no module
  variable and nothing on the page, so in particular the search loader and the loading
  panel stay as they were. Hiding them is left to the call that superseded it.
\<close>

theorem stale_return_no_effect:
  assumes "pending rt requestId = Some k" and "staleness_checkpoint k r"
      and "is_stale requestId rt"
  shows "globals (fire Date (Settle requestId r) rt) = globals rt
       \<and> pending (fire Date (Settle requestId r) rt) = (pending rt)(requestId := None)
       \<and> searchLoading_hidden (page (globals (fire Date (Settle requestId r) rt)))
           = searchLoading_hidden (page (globals rt))
       \<and> loadingCon_hidden (page (globals (fire Date (Settle requestId r) rt)))
           = loadingCon_hidden (page (globals rt))"
proof -
  have "resume Date requestId k r rt = finish requestId rt"
    using assms(2,3) by (cases k; cases r) simp_all
  then show ?thesis using assms(1) by (simp add: finish_def)
qed

theorem stale_return_no_effect_witness:
  "pending (run (iso_Date 0) search_during_first_load (loaded example_page None)) 1 = Some AwaitGetCoordinates
   \<and> staleness_checkpoint AwaitGetCoordinates (Located (Some example_location))
   \<and> is_stale 1 (run (iso_Date 0) search_during_first_load (loaded example_page None))
   \<and> globals (fire (iso_Date 0) (Settle 1 (Located (Some example_location)))
                 (run (iso_Date 0) search_during_first_load (loaded example_page None)))
       = globals (run (iso_Date 0) search_during_first_load (loaded example_page None))"
proof -
  have p: "pending (run (iso_Date 0) search_during_first_load (loaded example_page None)) 1 = Some AwaitGetCoordinates"
    by (simp add: run_def search_during_first_load_def loaded_def step_defs page_defs example_page_def)
  have c: "staleness_checkpoint AwaitGetCoordinates (Located (Some example_location))" by simp
  have s: "is_stale 1 (run (iso_Date 0) search_during_first_load (loaded example_page None))"
    by (simp add: run_def search_during_first_load_def loaded_def step_defs page_defs example_page_def)
  from stale_return_no_effect [OF p c s] p c s show ?thesis by blast
qed

subsubsection \<open>What a superseded call still does\<close>

text \<open>
  The rendering block itself is guarded: a stretch that adds to the record of rendering
  calls belongs to the call whose \<^verbatim>\<open>requestId\<close> is the live counter.
\<close>

lemma render_only_by_latest:
  assumes "rendered (globals (fire Date (Settle requestId r) rt)) \<noteq> rendered (globals rt)"
  shows "requestId = latestRequestId (globals rt)"
proof (cases "pending rt requestId")
  case None
  with assms show ?thesis by simp
next
  case (Some k)
  with assms have "rendered (globals (resume Date requestId k r rt)) \<noteq> rendered (globals rt)" by simp
  then show ?thesis
    by (cases k; cases r) (auto simp: step_defs split: option.splits list.splits prod.splits if_splits)
qed

text \<open>
  A call that has been superseded while it waits for \<^verbatim>\<open>getCoordinates\<close>, or in the
  wait of the \<^verbatim>\<open>catch\<close> block, changes nothing when it goes on. So when all calls of a
  burst are made before any promise settles, the module variables and the page end up as
  if only the promises of the last call had settled.
\<close>

lemma resume_pending_other:"j \<noteq> requestId \<Longrightarrow> pending (resume Date requestId k r rt) j = pending rt j"
  by (cases k; cases r)
     (auto simp: step_defs split: option.splits list.splits prod.splits)

lemma resume_latestRequestId:
  "latestRequestId (globals (resume Date requestId k r rt)) = latestRequestId (globals rt)"
  by (cases k; cases r)
     (auto simp: step_defs split: option.splits list.splits prod.splits)

lemma resume_same_globals:
  assumes "globals rt = globals rt'"
  shows "globals (resume Date requestId k r rt) = globals (resume Date requestId k r rt')
       \<and> pending (resume Date requestId k r rt) requestId = pending (resume Date requestId k r rt') requestId
            \<or> resume Date requestId k r rt = rt \<and> resume Date requestId k r rt' = rt'"
  using assms
  by (cases k; cases r)
     (auto simp: step_defs split: option.splits list.splits prod.splits)

lemma settle_same_globals:
  assumes "globals rt = globals rt'" "pending rt requestId = pending rt' requestId"
  shows "globals (fire Date (Settle requestId r) rt) = globals (fire Date (Settle requestId r) rt')
       \<and> pending (fire Date (Settle requestId r) rt) requestId
           = pending (fire Date (Settle requestId r) rt') requestId"
proof (cases "pending rt requestId")
  case None
  with assms show ?thesis by simp
next
  case (Some k)
  with assms(2) have k': "pending rt' requestId = Some k" by simp
  from resume_same_globals [OF assms(1), of Date requestId k r] Some k' assms
  show ?thesis by auto
qed

lemma settle_superseded_inert:
  assumes "requestId \<noteq> latestRequestId (globals rt)"
      and "pending rt requestId = None \<or> pending rt requestId = Some AwaitGetCoordinates
           \<or> pending rt requestId = Some AwaitErrorWait"
  shows "globals (fire Date (Settle requestId r) rt) = globals rt
       \<and> (pending (fire Date (Settle requestId r) rt) requestId = None
          \<or> pending (fire Date (Settle requestId r) rt) requestId = Some AwaitGetCoordinates
          \<or> pending (fire Date (Settle requestId r) rt) requestId = Some AwaitErrorWait)"
  using assms by (cases r) (auto simp: step_defs)

lemma settle_pending_other:
  "j \<noteq> requestId \<Longrightarrow> pending (fire Date (Settle requestId r) rt) j = pending rt j"
  by (simp add: resume_pending_other split: option.splits)

lemma settle_latestRequestId:
  "latestRequestId (globals (fire Date (Settle requestId r) rt)) = latestRequestId (globals rt)"
  by (simp add: resume_latestRequestId split: option.splits)

lemma superseded_settles_inert:
  assumes "list_all is_settle evs"
      and "globals rt = globals rt'"
      and "pending rt (latestRequestId (globals rt)) = pending rt' (latestRequestId (globals rt))"
      and "\<forall>i. i \<noteq> latestRequestId (globals rt) \<longrightarrow>
             pending rt i = None \<or> pending rt i = Some AwaitGetCoordinates
             \<or> pending rt i = Some AwaitErrorWait"
  shows "globals (run Date evs rt)
           = globals (run Date (filter (settles_for (latestRequestId (globals rt))) evs) rt')"
  using assms
proof (induction evs arbitrary: rt rt')
  case Nil
  then show ?case by (simp add: run_def)
next
  case (Cons e evs)
  from Cons.prems(1) obtain i r where e: "e = Settle i r" by (cases e) auto
  from Cons.prems(1) have rest: "list_all is_settle evs" by simp
  define n where "n = latestRequestId (globals rt)"
  have n1: "latestRequestId (globals (fire Date e rt)) = n"
    by (simp add: e n_def settle_latestRequestId del: fire.simps)
  show ?case
  proof (cases "i = n")
    case True
    from settle_same_globals [of rt rt' i Date r] Cons.prems(2,3)
    have g: "globals (fire Date e rt) = globals (fire Date e rt')"
      and p: "pending (fire Date e rt) n = pending (fire Date e rt') n"
      by (simp_all add: e True n_def del: fire.simps)
    have inv: "\<forall>j. j \<noteq> latestRequestId (globals (fire Date e rt)) \<longrightarrow>
             pending (fire Date e rt) j = None \<or> pending (fire Date e rt) j = Some AwaitGetCoordinates
             \<or> pending (fire Date e rt) j = Some AwaitErrorWait"
    proof (intro allI impI)
      fix j assume "j \<noteq> latestRequestId (globals (fire Date e rt))"
      then have jn: "j \<noteq> n" by (simp add: n1)
      with True have "pending (fire Date e rt) j = pending rt j"
        by (simp add: e settle_pending_other del: fire.simps)
      with Cons.prems(4) jn
      show "pending (fire Date e rt) j = None \<or> pending (fire Date e rt) j = Some AwaitGetCoordinates
             \<or> pending (fire Date e rt) j = Some AwaitErrorWait"
        by (simp add: n_def)
    qed
    from Cons.IH [OF rest g _ inv] p
    have "globals (run Date evs (fire Date e rt)) = globals (run Date (filter (settles_for n) evs) (fire Date e rt'))"
      by (simp add: n1)
    then show ?thesis by (simp add: run_def e True n_def [symmetric])
  next
    case False
    from Cons.prems(4) False
    have w: "pending rt i = None \<or> pending rt i = Some AwaitGetCoordinates
           \<or> pending rt i = Some AwaitErrorWait"
      by (simp add: n_def)
    from False have st: "i \<noteq> latestRequestId (globals rt)" by (simp add: n_def)
    from settle_superseded_inert [OF st w, of Date r]
    have g: "globals (fire Date e rt) = globals rt"
      and w': "pending (fire Date e rt) i = None \<or> pending (fire Date e rt) i = Some AwaitGetCoordinates
          \<or> pending (fire Date e rt) i = Some AwaitErrorWait"
      by (simp_all add: e del: fire.simps)
    have p: "pending (fire Date e rt) n = pending rt' n"
      using False Cons.prems(3) by (simp add: e settle_pending_other n_def [symmetric] del: fire.simps)
    have inv: "\<forall>j. j \<noteq> latestRequestId (globals (fire Date e rt)) \<longrightarrow>
             pending (fire Date e rt) j = None \<or> pending (fire Date e rt) j = Some AwaitGetCoordinates
             \<or> pending (fire Date e rt) j = Some AwaitErrorWait"
    proof (intro allI impI)
      fix j assume "j \<noteq> latestRequestId (globals (fire Date e rt))"
      then have jn: "j \<noteq> n" by (simp add: n1)
      show "pending (fire Date e rt) j = None \<or> pending (fire Date e rt) j = Some AwaitGetCoordinates
             \<or> pending (fire Date e rt) j = Some AwaitErrorWait"
      proof (cases "j = i")
        case True
        with w' show ?thesis by simp
      next
        case False
        with Cons.prems(4) jn show ?thesis
          by (simp add: e settle_pending_other n_def del: fire.simps)
      qed
    qed
    from Cons.IH [OF rest _ _ inv, of rt'] g p Cons.prems(2)
    have "globals (run Date evs (fire Date e rt)) = globals (run Date (filter (settles_for n) evs) rt')"
      by (simp add: n1 n_def)
    then show ?thesis using False by (simp add: run_def e n_def [symmetric])
  qed
qed

lemma calls_only_waiting:
  assumes "list_all is_call calls"
      and "\<forall>i. pending rt i = None \<or> pending rt i = Some AwaitGetCoordinates"
  shows "\<forall>i. pending (run Date calls rt) i = None \<or> pending (run Date calls rt) i = Some AwaitGetCoordinates"
  using assms
proof (induction calls arbitrary: rt)
  case Nil
  then show ?case by (simp add: run_def)
next
  case (Cons e calls)
  from Cons.prems(1) obtain c l where e: "e = Call c l" by (cases e) auto
  have "\<forall>i. pending (fire Date e rt) i = None \<or> pending (fire Date e rt) i = Some AwaitGetCoordinates"
    using Cons.prems(2) by (simp add: e step_defs)
  from Cons.IH [OF _ this] Cons.prems(1) show ?case by (simp add: run_def)
qed

lemma burst_only_last_call_acts:
  assumes "list_all is_call calls" and "list_all is_settle evs"
  shows "globals (run Date (calls @ evs) (loaded d prefs))
           = globals (run Date (calls @ filter (settles_for
                 (latestRequestId (globals (run Date calls (loaded d prefs))))) evs) (loaded d prefs))"
proof -
  have "\<forall>i. pending (loaded d prefs) i = None \<or> pending (loaded d prefs) i = Some AwaitGetCoordinates"
    by (simp add: loaded_def)
  from calls_only_waiting [OF assms(1) this]
  have inv: "\<forall>i. i \<noteq> latestRequestId (globals (run Date calls (loaded d prefs))) \<longrightarrow>
      pending (run Date calls (loaded d prefs)) i = None
      \<or> pending (run Date calls (loaded d prefs)) i = Some AwaitGetCoordinates
      \<or> pending (run Date calls (loaded d prefs)) i = Some AwaitErrorWait"
    by blast
  from superseded_settles_inert [OF assms(2) refl refl inv] show ?thesis
    by (simp add: run_append)
qed

text \<open>
  C1 does not hold for the code. A call can also be superseded later, between the answer
  of the geocoding service and the check of line 581, and the claim speaks of calls that
  reach that check stale. In the run \<open>overtaken_forecast\<close> the second call is the
  most recent one and is the only one that renders, but \<^verbatim>\<open>setHourlyToToday\<close> takes
  the hours from \<^verbatim>\<open>lastWeatherData\<close>, which the first call has overwritten at line 578
  after it was superseded: the hours passed to \<^verbatim>\<open>renderHourly\<close> are those of the first
  response (5 and 6 degrees), not those of the second (21 and 22 degrees), and the
  snapshot left behind is the first response.
\<close>

theorem latest_request_renders_superseded_hours:
  "latestRequestId (globals (run (iso_Date 0) overtaken_forecast (loaded example_page None))) = 2
   \<and> rendered (globals (run (iso_Date 0) overtaken_forecast (loaded example_page None))) =
       [UpdateInfoCards (response_current_weather other_forecast) (response_hourly other_forecast),
        UpdateDailyForecast (response_daily other_forecast),
        PopulateDaysDropdown [''2024-02-29'', ''2024-03-01''],
        RenderHourly (getHourlyForDay (iso_Date 0) (response_hourly example_forecast) ''2024-02-29''),
        TodayPanel ''Cairo'' ''Egypt'' (response_current_weather other_forecast)]
   \<and> getHourlyForDay (iso_Date 0) (response_hourly example_forecast) ''2024-02-29'' =
       [\<lparr>hour_time = ''2024-02-29T00:00'', hour_temperature = Some 5, hour_weathercode = Some 1\<rparr>,
        \<lparr>hour_time = ''2024-02-29T23:00'', hour_temperature = Some 6, hour_weathercode = Some 2\<rparr>]
   \<and> getHourlyForDay (iso_Date 0) (response_hourly other_forecast) ''2024-02-29'' =
       [\<lparr>hour_time = ''2024-02-29T00:00'', hour_temperature = Some 21, hour_weathercode = Some 1\<rparr>,
        \<lparr>hour_time = ''2024-02-29T23:00'', hour_temperature = Some 22, hour_weathercode = Some 2\<rparr>]
   \<and> lastWeatherData (globals (run (iso_Date 0) overtaken_forecast (loaded example_page None)))
       = Some example_forecast"
proof -
  have a: "latestRequestId (globals (run (iso_Date 0) overtaken_forecast (loaded example_page None))) = 2"
    by (simp add: run_def overtaken_forecast_def example_defs step_defs)
  have b: "rendered (globals (run (iso_Date 0) overtaken_forecast (loaded example_page None))) =
       [UpdateInfoCards (response_current_weather other_forecast) (response_hourly other_forecast),
        UpdateDailyForecast (response_daily other_forecast),
        PopulateDaysDropdown [''2024-02-29'', ''2024-03-01''],
        RenderHourly (getHourlyForDay (iso_Date 0) (response_hourly example_forecast) ''2024-02-29''),
        TodayPanel ''Cairo'' ''Egypt'' (response_current_weather other_forecast)]"
    by (simp add: run_def overtaken_forecast_def step_defs page_defs example_defs)
  have c: "getHourlyForDay (iso_Date 0) (response_hourly example_forecast) ''2024-02-29'' =
       [\<lparr>hour_time = ''2024-02-29T00:00'', hour_temperature = Some 5, hour_weathercode = Some 1\<rparr>,
        \<lparr>hour_time = ''2024-02-29T23:00'', hour_temperature = Some 6, hour_weathercode = Some 2\<rparr>]"
    by (simp add: example_forecast_def date_defs)
  have d: "getHourlyForDay (iso_Date 0) (response_hourly other_forecast) ''2024-02-29'' =
       [\<lparr>hour_time = ''2024-02-29T00:00'', hour_temperature = Some 21, hour_weathercode = Some 1\<rparr>,
        \<lparr>hour_time = ''2024-02-29T23:00'', hour_temperature = Some 22, hour_weathercode = Some 2\<rparr>]"
    by (simp add: other_forecast_def date_defs)
  have e: "lastWeatherData (globals (run (iso_Date 0) overtaken_forecast (loaded example_page None)))
       = Some example_forecast"
    by (simp add: run_def overtaken_forecast_def example_defs step_defs)
  from a b c d e show ?thesis by (intro conjI)
qed

text \<open>
  C2 does not hold for the code. A call that has been superseded while the body of its
  forecast response is read still assigns \<^verbatim>\<open>lastWeatherData\<close> (line 578 comes before
  the check of line 581); and a call that has been superseded during the wait of line 544
  still hides the data sections and the main content and shows the panel for no results
  (no check follows that wait).
\<close>

theorem superseded_call_mutates_shared_state:
  "is_stale 1 (run (iso_Date 0) superseded_while_reading (loaded example_page None))
   \<and> pending (run (iso_Date 0) superseded_while_reading (loaded example_page None)) 1
       = Some (AwaitJson example_location)
   \<and> lastWeatherData (globals (run (iso_Date 0) superseded_while_reading (loaded example_page None))) = None
   \<and> lastWeatherData (globals (run (iso_Date 0) (superseded_while_reading
                                      @ [Settle 1 (Parsed (Some example_forecast))])
                                    (loaded example_page None))) = Some example_forecast
   \<and> is_stale 1 (run (iso_Date 0) superseded_while_not_found (loaded example_page None))
   \<and> pending (run (iso_Date 0) superseded_while_not_found (loaded example_page None)) 1
       = Some AwaitNoResultWait
   \<and> noResult_hidden (page (globals (run (iso_Date 0) superseded_while_not_found (loaded example_page None))))
   \<and> \<not> mainContent_hidden (page (globals (run (iso_Date 0) superseded_while_not_found (loaded example_page None))))
   \<and> \<not> todaySection_hidden (page (globals (run (iso_Date 0) superseded_while_not_found (loaded example_page None))))
   \<and> \<not> noResult_hidden (page (globals (run (iso_Date 0) (superseded_while_not_found @ [Settle 1 Elapsed])
                                             (loaded example_page None))))
   \<and> mainContent_hidden (page (globals (run (iso_Date 0) (superseded_while_not_found @ [Settle 1 Elapsed])
                                           (loaded example_page None))))
   \<and> todaySection_hidden (page (globals (run (iso_Date 0) (superseded_while_not_found @ [Settle 1 Elapsed])
                                           (loaded example_page None))))"
  by (simp add: run_def superseded_while_reading_def superseded_while_not_found_def
        example_defs step_defs page_defs)

text \<open>
  C6 does not hold for the code. The panel for no results is shown by a call whose
  \<^verbatim>\<open>requestId\<close> is 1 while the live counter is 2, because no check follows the wait of
  line 544. The generic error panel, in the same situation, stays hidden (line 633).
\<close>

theorem no_result_panel_shown_for_superseded_request:
  "latestRequestId (globals (run (iso_Date 0) superseded_while_not_found (loaded example_page None))) = 2
   \<and> pending (run (iso_Date 0) superseded_while_not_found (loaded example_page None)) 1
       = Some AwaitNoResultWait
   \<and> pending (run (iso_Date 0) superseded_while_not_found (loaded example_page None)) 2
       = Some AwaitGetCoordinates
   \<and> noResult_hidden (page (globals (run (iso_Date 0) superseded_while_not_found (loaded example_page None))))
   \<and> \<not> noResult_hidden (page (globals (fire (iso_Date 0) (Settle 1 Elapsed)
         (run (iso_Date 0) superseded_while_not_found (loaded example_page None)))))
   \<and> pending (run (iso_Date 0) superseded_while_failed (loaded example_page None)) 1 = Some AwaitErrorWait
   \<and> errorFetchCon_hidden (page (globals (fire (iso_Date 0) (Settle 1 Elapsed)
         (run (iso_Date 0) superseded_while_failed (loaded example_page None)))))"
  by (simp add: run_def superseded_while_failed_def superseded_while_not_found_def
        example_defs step_defs page_defs)

end
